theory Spec2Isabelle
  imports Main
begin

section \<open>The database-backed authentication provider of the argilla server\<close>

text \<open>
  The development embeds \<^verbatim>\<open>argilla/server/security/auth_provider/db/provider.py\<close>:
  the class \<^verbatim>\<open>DBAuthProvider\<close> with its login route, \<^verbatim>\<open>get_current_user\<close>,
  \<^verbatim>\<open>fetch_token_user\<close> and \<^verbatim>\<open>_create_access_token\<close>. Exceptions are values of a
  sum type (the \<^verbatim>\<open>OverflowError\<close> of the date arithmetic included), the two readings of the clock (\<^verbatim>\<open>datetime.utcnow()\<close> at issue time and the
  one made while a token is decoded) are explicit arguments, and the asynchronous calls
  are plain function calls: every one of them is awaited at once.
\<close>

subsection \<open>Users, settings, errors\<close>

text \<open>
  Modelled from the spec: the class \<^verbatim>\<open>argilla.server.models.User\<close> is not part of the
  sources at hand. A user record has a unique username, a password hash, a unique optional
  API key and an admin flag.
\<close>

record User =
  username :: string
  password_hash :: string
  user_api_key :: "string option"
  is_admin :: bool

text \<open>
  The fields of \<^verbatim>\<open>Settings\<close> that the provider reads. The class itself lives in
  \<^verbatim>\<open>.settings\<close>; only the field names are taken from the provider.
\<close>

record Settings =
  secret_key :: string
  algorithm :: string
  token_expiration_in_minutes :: int

text \<open>
  The exceptions that leave the provider: \<^verbatim>\<open>UnauthorizedError()\<close>, raised without
  arguments in every place, and the \<^verbatim>\<open>OverflowError\<close> that \<^verbatim>\<open>timedelta(...)\<close> and
  \<^verbatim>\<open>datetime + timedelta\<close> raise when their result is out of range.
\<close>

datatype error = UnauthorizedError | OverflowError

subsection \<open>Time\<close>

text \<open>
  An instant (\<^verbatim>\<open>datetime\<close>) is a number of microseconds since the epoch and a duration
  (\<^verbatim>\<open>timedelta\<close>) a number of microseconds. Both types are bounded in Python: a
  \<^verbatim>\<open>datetime\<close> lies between \<^verbatim>\<open>0001-01-01 00:00:00\<close> and
  \<^verbatim>\<open>9999-12-31 23:59:59.999999\<close>, a \<^verbatim>\<open>timedelta\<close> between \<^verbatim>\<open>-999999999\<close> days and
  one microsecond less than \<^verbatim>\<open>1000000000\<close> days. A \<^verbatim>\<open>timedelta\<close> is falsy exactly
  when it is the zero duration.
\<close>

type_synonym datetime = int

type_synonym timedelta = int

definition datetime_min :: datetime where
  "datetime_min = - 62135596800000000"

definition datetime_max :: datetime where
  "datetime_max = 253402300799999999"

definition timedelta_min :: timedelta where
  "timedelta_min = - 86399999913600000000"

definition timedelta_max :: timedelta where
  "timedelta_max = 86399999999999999999"

definition datetime_in_range :: "int \<Rightarrow> bool" where
  "datetime_in_range x = (datetime_min \<le> x \<and> x \<le> datetime_max)"

definition timedelta_in_range :: "int \<Rightarrow> bool" where
  "timedelta_in_range d = (timedelta_min \<le> d \<and> d \<le> timedelta_max)"

text \<open>
  \<^verbatim>\<open>timedelta(minutes=n)\<close> for an integer \<^verbatim>\<open>n\<close>: the duration of \<^verbatim>\<open>n\<close> minutes, or
  \<^verbatim>\<open>OverflowError\<close> when it is not a \<^verbatim>\<open>timedelta\<close>.
\<close>

definition timedelta_minutes :: "int \<Rightarrow> error + timedelta" where
  "timedelta_minutes minutes =
     (if timedelta_in_range (minutes * 60000000) then Inr (minutes * 60000000)
      else Inl OverflowError)"

text \<open>
  \<^verbatim>\<open>x + d\<close> for a \<^verbatim>\<open>datetime\<close> \<^verbatim>\<open>x\<close> and a \<^verbatim>\<open>timedelta\<close> \<^verbatim>\<open>d\<close>: the shifted
  instant, or \<^verbatim>\<open>OverflowError\<close> when it is not a \<^verbatim>\<open>datetime\<close>.
\<close>

definition datetime_add :: "datetime \<Rightarrow> timedelta \<Rightarrow> error + datetime" where
  "datetime_add x d = (if datetime_in_range (x + d) then Inr (x + d) else Inl OverflowError)"

subsection \<open>The token codec\<close>

text \<open>
  The claim set is the dictionary \<^verbatim>\<open>{"sub": ..., "exp": ...}\<close>; either key may be absent.
\<close>

record claim_set =
  sub_claim :: "string option"
  exp_claim :: "datetime option"

text \<open>
  Modelled from the spec: the opaque token string. The signing library (\<^verbatim>\<open>jose.jwt\<close>)
  is not part of the sources at hand, so a token is represented symbolically by what it
  was made from: the algorithm named in its header, the key it was signed with and the
  claim set it carries. Every string that is not such a serialisation is \<open>Malformed\<close>.
\<close>

datatype jwt =
  JWS string string claim_set
  | Malformed string

text \<open>The response model \<^verbatim>\<open>Token(access_token=...)\<close> of the login route.\<close>

record Token =
  access_token :: jwt

text \<open>
  Modelled from the spec: the failures of \<^verbatim>\<open>verify\<close>. In the library both are
  subclasses of \<^verbatim>\<open>JWTError\<close>, which is what the provider catches.
\<close>

datatype JWTError = InvalidSignature | Expired

text \<open>
  Modelled from the spec: \<^verbatim>\<open>jwt.encode(claims, key, algorithm=...)\<close> serialises and
  signs the claim set using the secret key and the configured signing algorithm.
\<close>

definition jwt_encode :: "claim_set \<Rightarrow> string \<Rightarrow> string \<Rightarrow> jwt" where
  "jwt_encode claims key alg = JWS alg key claims"

text \<open>
  Modelled from the spec: \<^verbatim>\<open>jwt.decode(token, key, algorithms=...)\<close> at the instant
  \<open>now\<close>. It verifies the signature against the secret key and the allowed algorithms
  and fails with \<open>InvalidSignature\<close> if that fails; it fails with \<open>Expired\<close> if an
  expiration claim is present and has passed (at or after the expiration instant);
  otherwise it returns the claim set.
\<close>

definition jwt_decode :: "datetime \<Rightarrow> jwt \<Rightarrow> string \<Rightarrow> string list \<Rightarrow> JWTError + claim_set" where
  "jwt_decode now token key algorithms =
     (case token of
        Malformed s \<Rightarrow> Inl InvalidSignature
      | JWS alg signing_key claims \<Rightarrow>
          if alg \<notin> set algorithms \<or> signing_key \<noteq> key then Inl InvalidSignature
          else (case exp_claim claims of
                  None \<Rightarrow> Inr claims
                | Some e \<Rightarrow> if e \<le> now then Inl Expired else Inr claims))"

subsection \<open>The credential store\<close>

text \<open>
  Modelled from the spec: the credential store behind the database session \<^verbatim>\<open>db\<close>.
  It persists the user records and exposes lookup by username, lookup by API key and
  password verification. The module \<^verbatim>\<open>argilla.server.contexts.accounts\<close> is not part of
  the sources at hand.
\<close>

record credential_store =
  users :: "User list"
  verify_password :: "string \<Rightarrow> string \<Rightarrow> bool"

text \<open>Modelled from the spec: \<^verbatim>\<open>accounts.get_user_by_username\<close>, lookup by username.\<close>

definition get_user_by_username :: "credential_store \<Rightarrow> string \<Rightarrow> User option" where
  "get_user_by_username db name = find (\<lambda>u. username u = name) (users db)"

text \<open>Modelled from the spec: \<^verbatim>\<open>accounts.get_user_by_api_key\<close>, lookup by API key.\<close>

definition get_user_by_api_key :: "credential_store \<Rightarrow> string \<Rightarrow> User option" where
  "get_user_by_api_key db k = find (\<lambda>u. user_api_key u = Some k) (users db)"

text \<open>
  Modelled from the spec: \<^verbatim>\<open>accounts.authenticate_user\<close>. Look the user up by username;
  if absent, or the stored password hash does not verify against the supplied password,
  there is no user.
\<close>

definition authenticate_user :: "credential_store \<Rightarrow> string \<Rightarrow> string \<Rightarrow> User option" where
  "authenticate_user db name password =
     (case get_user_by_username db name of
        None \<Rightarrow> None
      | Some user \<Rightarrow> if verify_password db password (password_hash user) then Some user else None)"

subsection \<open>DBAuthProvider\<close>

text \<open>
  Python truthiness of the two optional request credentials: \<^verbatim>\<open>None\<close> and the empty
  string are falsy. A signed token is never the empty string.
\<close>

definition truthy :: "string option \<Rightarrow> bool" where
  "truthy s = (case s of None \<Rightarrow> False | Some v \<Rightarrow> v \<noteq> [])"

definition token_truthy :: "jwt option \<Rightarrow> bool" where
  "token_truthy t =
     (case t of None \<Rightarrow> False | Some (Malformed s) \<Rightarrow> s \<noteq> [] | Some (JWS alg k claims) \<Rightarrow> True)"

text \<open>
  \<^verbatim>\<open>_create_access_token(self, username, expires_delta=None)\<close>, called at the instant
  \<open>now\<close>. The test \<^verbatim>\<open>if expires_delta:\<close> is a truthiness test, and
  \<^verbatim>\<open>datetime.utcnow() + expires_delta\<close> may raise.
\<close>

definition create_access_token ::
  "Settings \<Rightarrow> datetime \<Rightarrow> string \<Rightarrow> timedelta option \<Rightarrow> error + jwt" where
  "create_access_token self now name expires_delta =
     (let to_encode = \<lparr>sub_claim = Some name, exp_claim = None\<rparr>
      in case (case expires_delta of
                 None \<Rightarrow> Inr to_encode
               | Some d \<Rightarrow>
                   if d \<noteq> 0
                   then (case datetime_add now d of
                           Inl err \<Rightarrow> Inl err
                         | Inr expires \<Rightarrow> Inr (to_encode\<lparr>exp_claim := Some expires\<rparr>))
                   else Inr to_encode) of
           Inl err \<Rightarrow> Inl err
         | Inr to_encode' \<Rightarrow> Inr (jwt_encode to_encode' (secret_key self) (algorithm self)))"

text \<open>
  \<^verbatim>\<open>fetch_token_user(self, db, token)\<close>, decoding at the instant \<open>now\<close>. Every
  \<^verbatim>\<open>JWTError\<close> is caught and gives \<^verbatim>\<open>None\<close>; a missing or empty subject leaves the
  \<^verbatim>\<open>try\<close> block without a \<^verbatim>\<open>return\<close>, which gives \<^verbatim>\<open>None\<close> as well.
\<close>

definition fetch_token_user :: "Settings \<Rightarrow> datetime \<Rightarrow> credential_store \<Rightarrow> jwt \<Rightarrow> User option" where
  "fetch_token_user self now db token =
     (case jwt_decode now token (secret_key self) [algorithm self] of
        Inl e \<Rightarrow> None
      | Inr payload \<Rightarrow>
          (case sub_claim payload of
             None \<Rightarrow> None
           | Some name \<Rightarrow> if name \<noteq> [] then get_user_by_username db name else None))"

text \<open>
  \<^verbatim>\<open>get_current_user(self, security_scopes, request, db, api_key, token)\<close>; the scopes
  and the request are not read by the body. \<open>the\<close> is applied only under the truthiness
  test, hence to \<open>Some\<close>.
\<close>

definition get_current_user ::
  "Settings \<Rightarrow> datetime \<Rightarrow> credential_store \<Rightarrow> string option \<Rightarrow> jwt option \<Rightarrow> error + User" where
  "get_current_user self now db api_key token =
     (let user = (if truthy api_key then get_user_by_api_key db (the api_key)
                  else if token_truthy token then fetch_token_user self now db (the token)
                  else None)
      in case user of None \<Rightarrow> Inl UnauthorizedError | Some u \<Rightarrow> Inr u)"

text \<open>
  The route \<^verbatim>\<open>login_for_access_token(db, form_data)\<close>, called at the instant \<open>now\<close>
  with \<^verbatim>\<open>form_data.username\<close> and \<^verbatim>\<open>form_data.password\<close>. An exception of
  \<^verbatim>\<open>timedelta(minutes=...)\<close> or of \<^verbatim>\<open>_create_access_token\<close> leaves the route.
\<close>

definition login_for_access_token ::
  "Settings \<Rightarrow> datetime \<Rightarrow> credential_store \<Rightarrow> string \<Rightarrow> string \<Rightarrow> error + Token" where
  "login_for_access_token self now db name password =
     (case authenticate_user db name password of
        None \<Rightarrow> Inl UnauthorizedError
      | Some user \<Rightarrow>
          (case timedelta_minutes (token_expiration_in_minutes self) of
             Inl err \<Rightarrow> Inl err
           | Inr access_token_expires \<Rightarrow>
               (case create_access_token self now (username user) (Some access_token_expires) of
                  Inl err \<Rightarrow> Inl err
                | Inr tok \<Rightarrow> Inr \<lparr>access_token = tok\<rparr>)))"

subsection \<open>A small store for the concrete checks\<close>

definition alice :: User where
  "alice = \<lparr>username = ''alice'', password_hash = ''#wonderland'',
            user_api_key = Some ''key-a'', is_admin = False\<rparr>"

definition bob :: User where
  "bob = \<lparr>username = ''bob'', password_hash = ''#builder'',
          user_api_key = None, is_admin = True\<rparr>"

definition store0 :: credential_store where
  "store0 = \<lparr>users = [alice, bob], verify_password = (\<lambda>password h. h = CHR ''#'' # password)\<rparr>"

definition settings0 :: Settings where
  "settings0 = \<lparr>secret_key = ''secret'', algorithm = ''HS256'', token_expiration_in_minutes = 15\<rparr>"

text \<open>Midnight of 2026-11-03 (UTC), in microseconds since the epoch.\<close>

definition instant0 :: datetime where
  "instant0 = 1793664000000000"

section \<open>Properties\<close>

subsection \<open>Evaluation of the small store\<close>

lemma store0_by_username:
  "get_user_by_username store0 ''alice'' = Some alice"
  "get_user_by_username store0 ''bob'' = Some bob"
  "get_user_by_username store0 ''carol'' = None"
  by (simp_all add: get_user_by_username_def store0_def alice_def bob_def)

lemma store0_by_api_key:
  "get_user_by_api_key store0 ''key-a'' = Some alice"
  "get_user_by_api_key store0 ''stale'' = None"
  by (simp_all add: get_user_by_api_key_def store0_def alice_def bob_def)

lemma store0_authenticate:
  "authenticate_user store0 ''alice'' ''wonderland'' = Some alice"
  "authenticate_user store0 ''alice'' ''builder'' = None"
  "authenticate_user store0 ''carol'' ''wonderland'' = None"
  by (simp_all add: authenticate_user_def store0_by_username) (simp_all add: store0_def alice_def)

subsection \<open>Facts about the credential store\<close>

lemma get_user_by_username_name:
  "get_user_by_username db name = Some user \<Longrightarrow> username user = name"
  by (auto simp add: get_user_by_username_def find_Some_iff)

lemma authenticate_user_name:
  "authenticate_user db name password = Some user \<Longrightarrow> username user = name"
  by (auto simp add: authenticate_user_def split: option.splits if_splits
      dest: get_user_by_username_name)

subsection \<open>Facts about issuing\<close>

lemma create_access_token_cases:
  "create_access_token self now name ttl =
     (case ttl of
        None \<Rightarrow> Inr (jwt_encode \<lparr>sub_claim = Some name, exp_claim = None\<rparr>
                       (secret_key self) (algorithm self))
      | Some T \<Rightarrow>
          if T = 0
          then Inr (jwt_encode \<lparr>sub_claim = Some name, exp_claim = None\<rparr>
                      (secret_key self) (algorithm self))
          else if datetime_in_range (now + T)
          then Inr (jwt_encode \<lparr>sub_claim = Some name, exp_claim = Some (now + T)\<rparr>
                      (secret_key self) (algorithm self))
          else Inl OverflowError)"
  by (cases ttl) (simp_all add: create_access_token_def Let_def datetime_add_def)

lemmas range_defs =
  timedelta_in_range_def datetime_in_range_def timedelta_min_def timedelta_max_def
  datetime_min_def datetime_max_def instant0_def

lemma timedelta_in_range_zero:
  "timedelta_in_range 0"
  by (simp add: timedelta_in_range_def timedelta_min_def timedelta_max_def)

subsection \<open>Request authentication\<close>

text \<open>
  C1. When a request carries an API key (a non-empty header value) and a bearer token,
  \<open>get_current_user\<close> resolves the identity by the API-key lookup alone: the result is
  the one of the same request without the token, it is the same for every other token,
  clock reading and token configuration (the token is never consulted), it is the user
  found by the API key, and when the API key finds no user the request fails with
  \<open>UnauthorizedError\<close>, whatever user the token alone would have resolved.
\<close>

theorem get_current_user_api_key_precedence:
  assumes "api_key = Some k" and "k \<noteq> []" and "token = Some t"
  shows "get_current_user self now db api_key token = get_current_user self now db api_key None
       \<and> get_current_user self now db api_key token = get_current_user self' now' db api_key token'
       \<and> get_current_user self now db api_key token =
           (case get_user_by_api_key db k of None \<Rightarrow> Inl UnauthorizedError | Some u \<Rightarrow> Inr u)
       \<and> (get_user_by_api_key db k = None \<longrightarrow>
            get_current_user self now db api_key token = Inl UnauthorizedError)"
  using assms by (simp add: get_current_user_def truthy_def)

theorem get_current_user_api_key_precedence_witness:
  "fetch_token_user settings0 0 store0 (jwt_encode \<lparr>sub_claim = Some ''bob'', exp_claim = Some 900000000\<rparr> ''secret'' ''HS256'') = Some bob
   \<and> get_current_user settings0 0 store0 None
        (Some (jwt_encode \<lparr>sub_claim = Some ''bob'', exp_claim = Some 900000000\<rparr> ''secret'' ''HS256'')) = Inr bob
   \<and> get_user_by_api_key store0 ''stale'' = None
   \<and> get_current_user settings0 0 store0 (Some ''stale'')
        (Some (jwt_encode \<lparr>sub_claim = Some ''bob'', exp_claim = Some 900000000\<rparr> ''secret'' ''HS256'')) = Inl UnauthorizedError
   \<and> get_current_user settings0 0 store0 (Some ''stale'') None = Inl UnauthorizedError"
proof -
  let ?tok = "jwt_encode \<lparr>sub_claim = Some ''bob'', exp_claim = Some 900000000\<rparr> ''secret'' ''HS256''"
  have stale: "get_user_by_api_key store0 ''stale'' = None"
    by (simp add: store0_by_api_key)
  have bearer: "fetch_token_user settings0 0 store0 ?tok = Some bob"
    by (simp add: fetch_token_user_def jwt_encode_def jwt_decode_def settings0_def
        store0_by_username)
  have token_only: "get_current_user settings0 0 store0 None (Some ?tok) = Inr bob"
    using bearer
    by (simp add: get_current_user_def truthy_def token_truthy_def jwt_encode_def)
  have nonempty: "''stale'' \<noteq> []" by simp
  note precedence = get_current_user_api_key_precedence
    [OF refl nonempty refl, of settings0 0 store0 ?tok settings0 0 None]
  from precedence stale
  have both: "get_current_user settings0 0 store0 (Some ''stale'') (Some ?tok) = Inl UnauthorizedError"
    by blast
  from precedence both
  have alone: "get_current_user settings0 0 store0 (Some ''stale'') None = Inl UnauthorizedError"
    by simp
  from bearer token_only stale both alone show ?thesis by blast
qed

subsection \<open>Issuing and verifying tokens\<close>

text \<open>
  C2, as stated, fails for the zero duration: \<^verbatim>\<open>if expires_delta:\<close> is false for
  \<^verbatim>\<open>timedelta(0)\<close>, the token gets no expiration claim, and verification still
  succeeds at an instant after \<open>now + 0\<close>.
\<close>

theorem issued_token_expiry_counterexample:
  "(0::int) + 0 \<le> 5
   \<and> create_access_token settings0 0 ''alice'' (Some 0)
      = Inr (jwt_encode \<lparr>sub_claim = Some ''alice'', exp_claim = None\<rparr> ''secret'' ''HS256'')
   \<and> jwt_decode 5 (jwt_encode \<lparr>sub_claim = Some ''alice'', exp_claim = None\<rparr> ''secret'' ''HS256'')
        (secret_key settings0) [algorithm settings0]
      = Inr \<lparr>sub_claim = Some ''alice'', exp_claim = None\<rparr>"
  by (simp add: create_access_token_cases jwt_encode_def jwt_decode_def settings0_def)

text \<open>
  C2 (amended). For every token issued with a non-zero ttl \<open>T\<close> at the instant \<open>now\<close>,
  verification with the provider's key and algorithm succeeds at every instant strictly
  before \<open>now + T\<close> and fails with \<open>Expired\<close> at every instant at or after
  \<open>now + T\<close>; \<open>fetch_token_user\<close> then resolves no user.
\<close>

theorem issued_token_expiry:
  assumes "T \<noteq> 0" and "create_access_token self now name (Some T) = Inr tok"
  shows "(t < now + T \<longrightarrow>
            jwt_decode t tok (secret_key self) [algorithm self]
              = Inr \<lparr>sub_claim = Some name, exp_claim = Some (now + T)\<rparr>)
       \<and> (now + T \<le> t \<longrightarrow>
            jwt_decode t tok (secret_key self) [algorithm self] = Inl Expired
            \<and> fetch_token_user self t db tok = None)"
proof -
  from assms have tok: "tok = jwt_encode \<lparr>sub_claim = Some name, exp_claim = Some (now + T)\<rparr>
                              (secret_key self) (algorithm self)"
    by (simp add: create_access_token_cases split: if_splits)
  show ?thesis
    unfolding tok by (simp add: jwt_encode_def jwt_decode_def fetch_token_user_def)
qed

theorem issued_token_expiry_witness:
  "(900000000::int) \<noteq> 0 \<and> (1899::int) < 1000 + 900000000 \<and> (1000::int) + 900000000 \<le> 900001000
   \<and> create_access_token settings0 1000 ''alice'' (Some 900000000)
      = Inr (jwt_encode \<lparr>sub_claim = Some ''alice'', exp_claim = Some 900001000\<rparr> ''secret'' ''HS256'')
   \<and> jwt_decode 1899 (jwt_encode \<lparr>sub_claim = Some ''alice'', exp_claim = Some 900001000\<rparr> ''secret'' ''HS256'')
        (secret_key settings0) [algorithm settings0]
      = Inr \<lparr>sub_claim = Some ''alice'', exp_claim = Some 900001000\<rparr>
   \<and> jwt_decode 900001000 (jwt_encode \<lparr>sub_claim = Some ''alice'', exp_claim = Some 900001000\<rparr> ''secret'' ''HS256'')
        (secret_key settings0) [algorithm settings0] = Inl Expired"
proof -
  let ?tok = "jwt_encode \<lparr>sub_claim = Some ''alice'', exp_claim = Some 900001000\<rparr> ''secret'' ''HS256''"
  have nonzero: "(900000000::int) \<noteq> 0" by simp
  have issued: "create_access_token settings0 1000 ''alice'' (Some 900000000) = Inr ?tok"
    by (simp add: create_access_token_cases range_defs settings0_def)
  have before: "(1899::int) < 1000 + 900000000" and after: "(1000::int) + 900000000 \<le> 900001000"
    by simp_all
  have a: "jwt_decode 1899 ?tok (secret_key settings0) [algorithm settings0]
      = Inr \<lparr>sub_claim = Some ''alice'', exp_claim = Some 900001000\<rparr>"
    using issued_token_expiry [OF nonzero issued, of 1899 store0, THEN conjunct1] before by simp
  have b: "jwt_decode 900001000 ?tok (secret_key settings0) [algorithm settings0] = Inl Expired"
    using issued_token_expiry [OF nonzero issued, of 900001000 store0, THEN conjunct2] after by simp
  from nonzero before after issued a b show ?thesis by blast
qed



text \<open>
  C4. A token signed with a secret key different from the configured one fails
  verification with \<open>InvalidSignature\<close>, whatever its algorithm and claims;
  \<open>fetch_token_user\<close> resolves no user for it and a request carrying only that token
  is unauthorized.
\<close>

theorem wrong_key_rejected:
  assumes "k \<noteq> secret_key self"
  shows "jwt_decode now (jwt_encode claims k alg) (secret_key self) [algorithm self] = Inl InvalidSignature
       \<and> fetch_token_user self now db (jwt_encode claims k alg) = None
       \<and> get_current_user self now db None (Some (jwt_encode claims k alg)) = Inl UnauthorizedError"
  using assms
  by (simp add: jwt_encode_def jwt_decode_def fetch_token_user_def get_current_user_def
      truthy_def token_truthy_def)

theorem wrong_key_rejected_witness:
  "''other'' \<noteq> secret_key settings0
   \<and> jwt_decode 0 (jwt_encode \<lparr>sub_claim = Some ''alice'', exp_claim = None\<rparr> ''other'' ''HS256'')
       ''other'' [''HS256''] = Inr \<lparr>sub_claim = Some ''alice'', exp_claim = None\<rparr>
   \<and> jwt_decode 0 (jwt_encode \<lparr>sub_claim = Some ''alice'', exp_claim = None\<rparr> ''other'' ''HS256'')
       (secret_key settings0) [algorithm settings0] = Inl InvalidSignature
   \<and> fetch_token_user settings0 0 store0
       (jwt_encode \<lparr>sub_claim = Some ''alice'', exp_claim = None\<rparr> ''other'' ''HS256'') = None"
proof -
  have k: "''other'' \<noteq> secret_key settings0" by (simp add: settings0_def)
  show ?thesis
    using k wrong_key_rejected [OF k, of 0 "\<lparr>sub_claim = Some ''alice'', exp_claim = None\<rparr>" "''HS256''" store0]
    by (simp add: jwt_encode_def jwt_decode_def)
qed

text \<open>
  C5. A token whose signing algorithm differs from the single configured algorithm is
  rejected, also when it was signed with the configured key and so verifies under the
  algorithm it declares.
\<close>

theorem unexpected_algorithm_rejected:
  assumes "alg \<noteq> algorithm self"
  shows "jwt_decode now (jwt_encode claims k alg) (secret_key self) [algorithm self] = Inl InvalidSignature
       \<and> fetch_token_user self now db (jwt_encode claims k alg) = None"
  using assms
  by (simp add: jwt_encode_def jwt_decode_def fetch_token_user_def)

theorem unexpected_algorithm_rejected_witness:
  "''HS512'' \<noteq> algorithm settings0
   \<and> jwt_decode 0 (jwt_encode \<lparr>sub_claim = Some ''alice'', exp_claim = None\<rparr> (secret_key settings0) ''HS512'')
       (secret_key settings0) [''HS512''] = Inr \<lparr>sub_claim = Some ''alice'', exp_claim = None\<rparr>
   \<and> jwt_decode 0 (jwt_encode \<lparr>sub_claim = Some ''alice'', exp_claim = None\<rparr> (secret_key settings0) ''HS512'')
       (secret_key settings0) [algorithm settings0] = Inl InvalidSignature
   \<and> fetch_token_user settings0 0 store0
       (jwt_encode \<lparr>sub_claim = Some ''alice'', exp_claim = None\<rparr> (secret_key settings0) ''HS512'') = None"
proof -
  have a: "''HS512'' \<noteq> algorithm settings0" by (simp add: settings0_def)
  show ?thesis
    using a unexpected_algorithm_rejected [OF a, of 0 "\<lparr>sub_claim = Some ''alice'', exp_claim = None\<rparr>"
        "secret_key settings0" store0]
    by (simp add: jwt_encode_def jwt_decode_def)
qed

subsection \<open>Login\<close>

text \<open>
  C6, as stated, fails for a configuration whose expiration is not a \<^verbatim>\<open>timedelta\<close>:
  \<^verbatim>\<open>timedelta(minutes=10**13)\<close> raises \<^verbatim>\<open>OverflowError\<close> and the login of a validated
  pair returns no token.
\<close>

theorem login_token_subject_counterexample:
  "authenticate_user store0 ''alice'' ''wonderland'' = Some alice
   \<and> login_for_access_token (settings0\<lparr>token_expiration_in_minutes := 10000000000000\<rparr>)
        instant0 store0 ''alice'' ''wonderland'' = Inl OverflowError"
  by (simp add: store0_authenticate login_for_access_token_def timedelta_minutes_def
      range_defs)

text \<open>
  C6 (amended). For every (username, password) pair that the credential store validates,
  and every configuration whose expiration is representable (the configured minutes are a
  \<^verbatim>\<open>timedelta\<close> \<open>d\<close> and, when \<open>d\<close> is not zero, \<open>now + d\<close> is a \<^verbatim>\<open>datetime\<close>), login
  succeeds and returns a token that carries the supplied username as its subject:
  decoding it with the provider's key and algorithm, at any instant at which it has not
  expired, yields a claim set whose subject is that username.
\<close>

theorem login_token_subject:
  assumes "authenticate_user db name password = Some user"
    and "timedelta_minutes (token_expiration_in_minutes self) = Inr d"
    and "d \<noteq> 0 \<longrightarrow> datetime_in_range (now + d) \<and> t < now + d"
  shows "\<exists>tok e claims.
           login_for_access_token self now db name password = Inr \<lparr>access_token = tok\<rparr>
         \<and> tok = jwt_encode \<lparr>sub_claim = Some name, exp_claim = e\<rparr> (secret_key self) (algorithm self)
         \<and> jwt_decode t tok (secret_key self) [algorithm self] = Inr claims
         \<and> sub_claim claims = Some name"
proof -
  have name: "username user = name"
    using assms(1) by (rule authenticate_user_name)
  show ?thesis
  proof (cases "d = 0")
    case True
    then show ?thesis
      using assms(1,2) name
      by (simp add: login_for_access_token_def create_access_token_cases
          jwt_encode_def jwt_decode_def)
  next
    case False
    then show ?thesis
      using assms name
      by (simp add: login_for_access_token_def create_access_token_cases
          jwt_encode_def jwt_decode_def)
  qed
qed

theorem login_token_subject_witness:
  "authenticate_user store0 ''alice'' ''wonderland'' = Some alice
   \<and> timedelta_minutes (token_expiration_in_minutes settings0) = Inr 900000000
   \<and> (900000000::int) \<noteq> 0 \<and> datetime_in_range (1000 + 900000000) \<and> (1000::int) < 1000 + 900000000
   \<and> login_for_access_token settings0 1000 store0 ''alice'' ''wonderland''
       = Inr \<lparr>access_token = JWS ''HS256'' ''secret''
                \<lparr>sub_claim = Some ''alice'', exp_claim = Some 900001000\<rparr>\<rparr>
   \<and> (\<exists>tok e claims.
           login_for_access_token settings0 1000 store0 ''alice'' ''wonderland'' = Inr \<lparr>access_token = tok\<rparr>
         \<and> tok = jwt_encode \<lparr>sub_claim = Some ''alice'', exp_claim = e\<rparr> (secret_key settings0) (algorithm settings0)
         \<and> jwt_decode 1000 tok (secret_key settings0) [algorithm settings0] = Inr claims
         \<and> sub_claim claims = Some ''alice'')"
proof -
  have valid: "authenticate_user store0 ''alice'' ''wonderland'' = Some alice"
    by (simp add: store0_authenticate)
  have minutes: "timedelta_minutes (token_expiration_in_minutes settings0) = Inr 900000000"
    by (simp add: settings0_def timedelta_minutes_def range_defs)
  have nonzero: "(900000000::int) \<noteq> 0" by simp
  have representable: "datetime_in_range (1000 + 900000000)"
    by (simp add: range_defs)
  have early: "(1000::int) < 1000 + 900000000" by simp
  from representable early
  have fresh: "(900000000::int) \<noteq> 0 \<longrightarrow> datetime_in_range (1000 + 900000000) \<and> (1000::int) < 1000 + 900000000"
    by simp
  have issued: "login_for_access_token settings0 1000 store0 ''alice'' ''wonderland''
       = Inr \<lparr>access_token = JWS ''HS256'' ''secret''
                \<lparr>sub_claim = Some ''alice'', exp_claim = Some 900001000\<rparr>\<rparr>"
    using representable
    by (simp add: login_for_access_token_def valid minutes create_access_token_cases
        jwt_encode_def) (simp add: settings0_def alice_def)
  from valid minutes nonzero representable early issued
    login_token_subject [OF valid minutes fresh]
  show ?thesis by blast
qed

text \<open>
  C7. A login with a username that the store does not know and a login with a known
  username and a password that does not verify both fail with \<open>UnauthorizedError\<close>,
  and the two results are the same value.
\<close>

theorem login_failures_indistinguishable:
  assumes "get_user_by_username db nouser = None"
    and "get_user_by_username db realuser = Some user"
    and "\<not> verify_password db wrongpassword (password_hash user)"
  shows "login_for_access_token self now db nouser anything = Inl UnauthorizedError
       \<and> login_for_access_token self' now' db realuser wrongpassword = Inl UnauthorizedError
       \<and> login_for_access_token self now db nouser anything
           = login_for_access_token self' now' db realuser wrongpassword"
  using assms by (simp add: login_for_access_token_def authenticate_user_def)

theorem login_failures_indistinguishable_witness:
  "get_user_by_username store0 ''carol'' = None
   \<and> get_user_by_username store0 ''alice'' = Some alice
   \<and> \<not> verify_password store0 ''builder'' (password_hash alice)
   \<and> login_for_access_token settings0 0 store0 ''carol'' ''wonderland'' = Inl UnauthorizedError
   \<and> login_for_access_token settings0 0 store0 ''alice'' ''builder'' = Inl UnauthorizedError"
proof -
  have absent: "get_user_by_username store0 ''carol'' = None"
    and present: "get_user_by_username store0 ''alice'' = Some alice"
    by (simp_all add: store0_by_username)
  have wrong: "\<not> verify_password store0 ''builder'' (password_hash alice)"
    by (simp add: store0_def alice_def)
  from absent present wrong
    login_failures_indistinguishable [OF absent present wrong, of settings0 0 "''wonderland''" settings0 0]
  show ?thesis by blast
qed

subsection \<open>Unauthenticated requests\<close>

text \<open>
  C8, as stated, fails for a request that carries a valid API key next to a token that
  verifies without a subject: the API key is looked up first and the request is
  authenticated as the owner of the key.
\<close>

theorem unauthenticated_counterexample:
  "jwt_decode 0 (jwt_encode \<lparr>sub_claim = None, exp_claim = None\<rparr> ''secret'' ''HS256'')
       (secret_key settings0) [algorithm settings0] = Inr \<lparr>sub_claim = None, exp_claim = None\<rparr>
   \<and> get_current_user settings0 0 store0 (Some ''key-a'')
        (Some (jwt_encode \<lparr>sub_claim = None, exp_claim = None\<rparr> ''secret'' ''HS256'')) = Inr alice"
  by (simp add: jwt_encode_def jwt_decode_def settings0_def get_current_user_def truthy_def
      store0_by_api_key)

text \<open>
  C8 (amended). A request that carries neither an API key nor a bearer token fails with
  \<open>UnauthorizedError\<close>; so does a request without an API key whose token verifies but
  whose subject claim is missing or names no user of the credential store. No identity
  is returned in either case.
\<close>

theorem unauthenticated_without_credentials_or_subject:
  "(\<not> truthy api_key \<and> \<not> token_truthy token \<longrightarrow>
      get_current_user self now db api_key token = Inl UnauthorizedError)
 \<and> (\<not> truthy api_key \<and> token = Some t
      \<and> jwt_decode now t (secret_key self) [algorithm self] = Inr claims
      \<and> (case sub_claim claims of None \<Rightarrow> True | Some name \<Rightarrow> get_user_by_username db name = None)
    \<longrightarrow> get_current_user self now db api_key token = Inl UnauthorizedError)"
  by (auto simp add: get_current_user_def fetch_token_user_def split: option.splits)

theorem unauthenticated_without_credentials_or_subject_witness:
  "\<not> truthy None \<and> \<not> token_truthy None
   \<and> get_current_user settings0 0 store0 None None = Inl UnauthorizedError
   \<and> jwt_decode 0 (jwt_encode \<lparr>sub_claim = None, exp_claim = None\<rparr> ''secret'' ''HS256'')
        (secret_key settings0) [algorithm settings0] = Inr \<lparr>sub_claim = None, exp_claim = None\<rparr>
   \<and> get_current_user settings0 0 store0 None
        (Some (jwt_encode \<lparr>sub_claim = None, exp_claim = None\<rparr> ''secret'' ''HS256''))
        = Inl UnauthorizedError
   \<and> jwt_decode 0 (jwt_encode \<lparr>sub_claim = Some ''carol'', exp_claim = None\<rparr> ''secret'' ''HS256'')
        (secret_key settings0) [algorithm settings0] = Inr \<lparr>sub_claim = Some ''carol'', exp_claim = None\<rparr>
   \<and> get_user_by_username store0 ''carol'' = None
   \<and> get_current_user settings0 0 store0 None
        (Some (jwt_encode \<lparr>sub_claim = Some ''carol'', exp_claim = None\<rparr> ''secret'' ''HS256''))
        = Inl UnauthorizedError"
proof -
  let ?nosub = "jwt_encode \<lparr>sub_claim = None, exp_claim = None\<rparr> ''secret'' ''HS256''"
  let ?carol = "jwt_encode \<lparr>sub_claim = Some ''carol'', exp_claim = None\<rparr> ''secret'' ''HS256''"
  have falsy: "\<not> truthy None" "\<not> token_truthy None"
    by (simp_all add: truthy_def token_truthy_def)
  have nosub: "jwt_decode 0 ?nosub (secret_key settings0) [algorithm settings0]
      = Inr \<lparr>sub_claim = None, exp_claim = None\<rparr>"
    by (simp add: jwt_encode_def jwt_decode_def settings0_def)
  have carol: "jwt_decode 0 ?carol (secret_key settings0) [algorithm settings0]
      = Inr \<lparr>sub_claim = Some ''carol'', exp_claim = None\<rparr>"
    by (simp add: jwt_encode_def jwt_decode_def settings0_def)
  have unknown: "get_user_by_username store0 ''carol'' = None"
    by (simp add: store0_by_username)
  have a: "get_current_user settings0 0 store0 None None = Inl UnauthorizedError"
    using unauthenticated_without_credentials_or_subject
      [where api_key = None and token = None and self = settings0 and now = 0 and db = store0]
      falsy by blast
  have b: "get_current_user settings0 0 store0 None (Some ?nosub) = Inl UnauthorizedError"
    using unauthenticated_without_credentials_or_subject
      [where api_key = None and token = "Some ?nosub" and t = ?nosub and self = settings0
         and now = 0 and db = store0 and claims = "\<lparr>sub_claim = None, exp_claim = None\<rparr>"]
      falsy nosub by simp
  have c: "get_current_user settings0 0 store0 None (Some ?carol) = Inl UnauthorizedError"
    using unauthenticated_without_credentials_or_subject
      [where api_key = None and token = "Some ?carol" and t = ?carol and self = settings0
         and now = 0 and db = store0 and claims = "\<lparr>sub_claim = Some ''carol'', exp_claim = None\<rparr>"]
      falsy carol unknown by simp
  from falsy nosub carol unknown a b c show ?thesis by blast
qed

subsection \<open>The expiration claim\<close>

text \<open>
  C9, as stated, fails in two places. A ttl that is provided but is the zero duration is
  skipped by the truthiness test, so the claim set gets no expiration claim. A ttl that
  takes \<open>now + ttl\<close> out of the range of \<^verbatim>\<open>datetime\<close> (here 3000000 days from
  2026-11-03) makes the addition raise \<^verbatim>\<open>OverflowError\<close>, so no claim set is built.
\<close>

theorem create_access_token_claims_counterexample:
  "create_access_token settings0 7 ''alice'' (Some 0)
     = Inr (jwt_encode \<lparr>sub_claim = Some ''alice'', exp_claim = None\<rparr> ''secret'' ''HS256'')
   \<and> create_access_token settings0 7 ''alice'' (Some 0)
     \<noteq> Inr (jwt_encode \<lparr>sub_claim = Some ''alice'', exp_claim = Some (7 + 0)\<rparr> ''secret'' ''HS256'')
   \<and> create_access_token settings0 instant0 ''alice'' (Some 259200000000000000) = Inl OverflowError"
  by (simp add: create_access_token_cases range_defs jwt_encode_def settings0_def)

text \<open>
  C9 (amended). Issuing builds the claim set with the subject given. It adds the expiration
  claim \<open>now + ttl\<close> exactly when a ttl is provided, is not the zero duration and
  \<open>now + ttl\<close> is a \<^verbatim>\<open>datetime\<close>; for a non-zero ttl with \<open>now + ttl\<close> out of range it
  raises \<^verbatim>\<open>OverflowError\<close> and issues nothing. When no ttl (or the zero duration) is
  given, the issued token has no expiration claim and verifies at every instant.
\<close>

theorem create_access_token_claims:
  "(ttl = None \<or> ttl = Some 0 \<longrightarrow>
      create_access_token self now subject ttl
        = Inr (jwt_encode \<lparr>sub_claim = Some subject, exp_claim = None\<rparr>
                 (secret_key self) (algorithm self))
    \<and> jwt_decode t (jwt_encode \<lparr>sub_claim = Some subject, exp_claim = None\<rparr>
                       (secret_key self) (algorithm self)) (secret_key self) [algorithm self]
        = Inr \<lparr>sub_claim = Some subject, exp_claim = None\<rparr>)
 \<and> (ttl = Some T \<and> T \<noteq> 0 \<and> datetime_in_range (now + T) \<longrightarrow>
      create_access_token self now subject ttl
        = Inr (jwt_encode \<lparr>sub_claim = Some subject, exp_claim = Some (now + T)\<rparr>
                 (secret_key self) (algorithm self)))
 \<and> (ttl = Some T \<and> T \<noteq> 0 \<and> \<not> datetime_in_range (now + T) \<longrightarrow>
      create_access_token self now subject ttl = Inl OverflowError)"
  by (cases ttl) (auto simp add: create_access_token_cases jwt_encode_def jwt_decode_def)

theorem create_access_token_claims_witness:
  "(60000000::int) \<noteq> 0 \<and> datetime_in_range (7 + 60000000)
   \<and> create_access_token settings0 7 ''alice'' (Some 60000000)
     = Inr (jwt_encode \<lparr>sub_claim = Some ''alice'', exp_claim = Some 60000007\<rparr> ''secret'' ''HS256'')
   \<and> create_access_token settings0 7 ''alice'' None
     = Inr (jwt_encode \<lparr>sub_claim = Some ''alice'', exp_claim = None\<rparr> ''secret'' ''HS256'')
   \<and> jwt_decode 999999999999
        (jwt_encode \<lparr>sub_claim = Some ''alice'', exp_claim = None\<rparr> ''secret'' ''HS256'')
        ''secret'' [''HS256'']
      = Inr \<lparr>sub_claim = Some ''alice'', exp_claim = None\<rparr>
   \<and> (259200000000000000::int) \<noteq> 0 \<and> \<not> datetime_in_range (instant0 + 259200000000000000)
   \<and> create_access_token settings0 instant0 ''alice'' (Some 259200000000000000) = Inl OverflowError"
proof -
  have inside: "datetime_in_range (7 + 60000000)"
    by (simp add: range_defs)
  have outside: "\<not> datetime_in_range (instant0 + 259200000000000000)"
    by (simp add: range_defs)
  have key: "secret_key settings0 = ''secret''" and alg: "algorithm settings0 = ''HS256''"
    by (simp_all add: settings0_def)
  from create_access_token_claims
      [where self = settings0 and now = 7 and subject = "''alice''" and ttl = "Some 60000000"
         and T = 60000000, THEN conjunct2, THEN conjunct1] inside
  have a: "create_access_token settings0 7 ''alice'' (Some 60000000)
     = Inr (jwt_encode \<lparr>sub_claim = Some ''alice'', exp_claim = Some 60000007\<rparr> ''secret'' ''HS256'')"
    by (simp add: key alg)
  note untimed = create_access_token_claims
      [where self = settings0 and now = 7 and subject = "''alice''" and ttl = None
         and t = 999999999999, THEN conjunct1]
  from untimed
  have b: "create_access_token settings0 7 ''alice'' None
     = Inr (jwt_encode \<lparr>sub_claim = Some ''alice'', exp_claim = None\<rparr> ''secret'' ''HS256'')"
    by (simp add: key alg)
  from untimed
  have c: "jwt_decode 999999999999
        (jwt_encode \<lparr>sub_claim = Some ''alice'', exp_claim = None\<rparr> ''secret'' ''HS256'')
        ''secret'' [''HS256'']
      = Inr \<lparr>sub_claim = Some ''alice'', exp_claim = None\<rparr>"
    by (simp add: key alg)
  from create_access_token_claims
      [where self = settings0 and now = instant0 and subject = "''alice''"
         and ttl = "Some 259200000000000000" and T = 259200000000000000,
       THEN conjunct2, THEN conjunct2] outside
  have d: "create_access_token settings0 instant0 ''alice'' (Some 259200000000000000) = Inl OverflowError"
    by simp
  have nz: "(60000000::int) \<noteq> 0" "(259200000000000000::int) \<noteq> 0" by simp_all
  from nz inside outside a b c d show ?thesis by blast
qed

text \<open>
  C10, as stated, fails for a positive configuration whose expiration instant is not a
  \<^verbatim>\<open>datetime\<close>: with 4193477280 minutes at midnight of 2026-11-03 the addition
  \<^verbatim>\<open>datetime.utcnow() + expires_delta\<close> raises \<^verbatim>\<open>OverflowError\<close> and the login of a
  validated pair produces no token.
\<close>

theorem login_expiration_configuration_counterexample:
  "0 < token_expiration_in_minutes (settings0\<lparr>token_expiration_in_minutes := 4193477280\<rparr>)
   \<and> authenticate_user store0 ''alice'' ''wonderland'' = Some alice
   \<and> login_for_access_token (settings0\<lparr>token_expiration_in_minutes := 4193477280\<rparr>)
        instant0 store0 ''alice'' ''wonderland'' = Inl OverflowError"
  by (simp add: store0_authenticate login_for_access_token_def timedelta_minutes_def
      create_access_token_cases range_defs)

text \<open>
  C10 (amended). Login passes \<^verbatim>\<open>timedelta(minutes=token_expiration_in_minutes)\<close> as the
  ttl. A configuration of exactly 0 minutes gives a token without an expiration claim,
  which verifies at every instant; every positive configuration whose expiration is
  representable (the minutes are a \<^verbatim>\<open>timedelta\<close> and the instant of issue plus them is a
  \<^verbatim>\<open>datetime\<close>) gives a token whose expiration claim is the instant of issue plus that
  many minutes; every other positive configuration makes login raise \<^verbatim>\<open>OverflowError\<close>.
\<close>

theorem login_expiration_configuration:
  assumes "authenticate_user db name password = Some user"
  shows "login_for_access_token self now db name password
           = (case timedelta_minutes (token_expiration_in_minutes self) of
                Inl err \<Rightarrow> Inl err
              | Inr d \<Rightarrow>
                  (case create_access_token self now (username user) (Some d) of
                     Inl err \<Rightarrow> Inl err
                   | Inr tok \<Rightarrow> Inr \<lparr>access_token = tok\<rparr>))
       \<and> (token_expiration_in_minutes self = 0 \<longrightarrow>
            login_for_access_token self now db name password
              = Inr \<lparr>access_token = jwt_encode \<lparr>sub_claim = Some (username user), exp_claim = None\<rparr>
                                       (secret_key self) (algorithm self)\<rparr>
          \<and> jwt_decode t (jwt_encode \<lparr>sub_claim = Some (username user), exp_claim = None\<rparr>
                            (secret_key self) (algorithm self)) (secret_key self) [algorithm self]
              = Inr \<lparr>sub_claim = Some (username user), exp_claim = None\<rparr>)
       \<and> (0 < token_expiration_in_minutes self
            \<and> timedelta_in_range (token_expiration_in_minutes self * 60000000)
            \<and> datetime_in_range (now + token_expiration_in_minutes self * 60000000) \<longrightarrow>
            login_for_access_token self now db name password
              = Inr \<lparr>access_token = jwt_encode
                       \<lparr>sub_claim = Some (username user),
                        exp_claim = Some (now + token_expiration_in_minutes self * 60000000)\<rparr>
                       (secret_key self) (algorithm self)\<rparr>)
       \<and> (0 < token_expiration_in_minutes self
            \<and> \<not> (timedelta_in_range (token_expiration_in_minutes self * 60000000)
                  \<and> datetime_in_range (now + token_expiration_in_minutes self * 60000000)) \<longrightarrow>
            login_for_access_token self now db name password = Inl OverflowError)"
  using assms
  by (auto simp add: login_for_access_token_def create_access_token_cases timedelta_minutes_def
      timedelta_in_range_zero jwt_encode_def jwt_decode_def)

theorem login_expiration_configuration_witness:
  "authenticate_user store0 ''alice'' ''wonderland'' = Some alice
   \<and> token_expiration_in_minutes (settings0\<lparr>token_expiration_in_minutes := 0\<rparr>) = 0
   \<and> login_for_access_token (settings0\<lparr>token_expiration_in_minutes := 0\<rparr>) instant0 store0 ''alice'' ''wonderland''
       = Inr \<lparr>access_token = jwt_encode \<lparr>sub_claim = Some ''alice'', exp_claim = None\<rparr> ''secret'' ''HS256''\<rparr>
   \<and> 0 < token_expiration_in_minutes settings0
   \<and> timedelta_in_range (token_expiration_in_minutes settings0 * 60000000)
   \<and> datetime_in_range (instant0 + token_expiration_in_minutes settings0 * 60000000)
   \<and> login_for_access_token settings0 instant0 store0 ''alice'' ''wonderland''
       = Inr \<lparr>access_token = jwt_encode \<lparr>sub_claim = Some ''alice'', exp_claim = Some 1793664900000000\<rparr>
                                ''secret'' ''HS256''\<rparr>
   \<and> 0 < token_expiration_in_minutes (settings0\<lparr>token_expiration_in_minutes := 4200000000\<rparr>)
   \<and> \<not> datetime_in_range (instant0 + 4200000000 * 60000000)
   \<and> login_for_access_token (settings0\<lparr>token_expiration_in_minutes := 4200000000\<rparr>) instant0 store0
        ''alice'' ''wonderland'' = Inl OverflowError"
proof -
  have valid: "authenticate_user store0 ''alice'' ''wonderland'' = Some alice"
    by (simp add: store0_authenticate)
  have zero: "token_expiration_in_minutes (settings0\<lparr>token_expiration_in_minutes := 0\<rparr>) = 0"
    and positive: "0 < token_expiration_in_minutes settings0"
    and huge: "0 < token_expiration_in_minutes (settings0\<lparr>token_expiration_in_minutes := 4200000000\<rparr>)"
    by (simp_all add: settings0_def)
  have duration: "timedelta_in_range (token_expiration_in_minutes settings0 * 60000000)"
    and instant: "datetime_in_range (instant0 + token_expiration_in_minutes settings0 * 60000000)"
    by (simp_all add: settings0_def range_defs)
  have outside: "\<not> datetime_in_range (instant0 + 4200000000 * 60000000)"
    by (simp add: range_defs)
  note unlimited = login_expiration_configuration
      [OF valid, of "settings0\<lparr>token_expiration_in_minutes := 0\<rparr>" instant0 0]
  note limited = login_expiration_configuration [OF valid, of settings0 instant0 0]
  note overflow = login_expiration_configuration
      [OF valid, of "settings0\<lparr>token_expiration_in_minutes := 4200000000\<rparr>" instant0 0]
  have a: "login_for_access_token (settings0\<lparr>token_expiration_in_minutes := 0\<rparr>) instant0 store0 ''alice'' ''wonderland''
       = Inr \<lparr>access_token = jwt_encode \<lparr>sub_claim = Some ''alice'', exp_claim = None\<rparr> ''secret'' ''HS256''\<rparr>"
    using unlimited [THEN conjunct2, THEN conjunct1, rule_format, OF zero, THEN conjunct1]
    by (simp add: settings0_def alice_def)
  have b: "login_for_access_token settings0 instant0 store0 ''alice'' ''wonderland''
       = Inr \<lparr>access_token = jwt_encode \<lparr>sub_claim = Some ''alice'', exp_claim = Some 1793664900000000\<rparr>
                                ''secret'' ''HS256''\<rparr>"
    using limited [THEN conjunct2, THEN conjunct2, THEN conjunct1, rule_format,
        OF conjI [OF positive conjI [OF duration instant]]]
    by (simp add: settings0_def alice_def instant0_def)
  have c: "login_for_access_token (settings0\<lparr>token_expiration_in_minutes := 4200000000\<rparr>) instant0 store0
        ''alice'' ''wonderland'' = Inl OverflowError"
    using overflow [THEN conjunct2, THEN conjunct2, THEN conjunct2] huge outside
    by simp
  from valid zero positive huge duration instant outside a b c show ?thesis by blast
qed

end
